theory Spec2Isabelle
  imports Main
begin

section \<open>The streaming chat client: the \<open>useWebSocket\<close> hook and its caller\<close>

text \<open>
  The hook keeps four pieces of React state (\<open>messages\<close>, \<open>isConnected\<close>,
  \<open>isStreaming\<close>, \<open>rateLimits\<close>) and two mutable references (\<open>wsRef\<close>,
  \<open>currentMessageRef\<close>). Every handler runs to completion before the next one starts, so
  a handler is a function from the state before to the state after. The handlers are
  given twice. In \<open>dispatch\<close> and \<open>sendMessage\<close> every state update takes effect
  where it is requested: this is the handler together with the render that follows it.
  In \<open>dispatch_queued\<close> and \<open>sendMessage_queued\<close> a state update is put on React's
  queue and runs at the next render, while references and sockets are written at once;
  the two agree when a render follows the handler. Console output is not part of the
  model.
\<close>

subsection \<open>Data\<close>

datatype Role = User | Assistant

text \<open>
  \<open>ChatMessage\<close>. The field \<open>id\<close> is named \<open>msg_id\<close> here; \<open>isStreaming\<close> is optional
  in the source, so it is an option: \<open>None\<close> is the absent field. \<open>timestamp\<close> is the
  clock reading in milliseconds.
\<close>

record ChatMessage =
  msg_id :: string
  role :: Role
  content :: string
  isStreaming :: "bool option"
  timestamp :: nat

record Usage =
  burst :: int
  per_chat :: int
  hourly :: int
  daily :: int

text \<open>The value kept by \<open>rateLimits\<close> (\<open>null\<close> is \<open>None\<close> in the state below).\<close>

record RateLimits =
  current :: Usage
  limits :: Usage

text \<open>
  \<open>WebSocketMessage\<close>, the decoded inbound frame. The source's field names carry the
  prefix \<open>wm_\<close>; an optional field is an option.
\<close>

record WebSocketMessage =
  wm_type :: string
  wm_content :: "string option"
  wm_chunk_id :: "int option"
  wm_delta :: "string option"
  wm_status :: "string option"
  wm_user_id :: "string option"
  wm_timestamp :: "string option"
  wm_current_usage :: "Usage option"
  wm_limits :: "Usage option"
  wm_arguments :: "string option"
  wm_call_id :: "string option"
  wm_name :: "string option"

text \<open>
  The browser's \<open>WebSocket\<close> object, as far as the hook uses it: the address it was
  opened with, its \<open>readyState\<close>, and the frames handed to \<open>send\<close>. An outbound frame is
  kept as the object given to \<open>JSON.stringify\<close>.
\<close>

datatype ReadyState = CONNECTING | OPEN | CLOSING | CLOSED

datatype Outbound = MessageFrame string string | PingFrame

record WebSocket =
  url :: string
  readyState :: ReadyState
  sent :: "Outbound list"

text \<open>
  The state of one hook instance. \<open>isStreamingState\<close> is the React state \<open>isStreaming\<close>
  (the name \<open>isStreaming\<close> is taken by the message field). \<open>sockets\<close> holds every socket
  the hook has created, in creation order; \<open>wsRef\<close> is \<open>None\<close> for \<open>null\<close> and otherwise
  the position of the referenced socket in \<open>sockets\<close>. A socket that \<open>wsRef\<close> no longer
  points to stays in \<open>sockets\<close>, with its handlers attached, as in the browser.
\<close>

record hook_state =
  messages :: "ChatMessage list"
  isConnected :: bool
  isStreamingState :: bool
  rateLimits :: "RateLimits option"
  wsRef :: "nat option"
  currentMessageRef :: string
  sockets :: "WebSocket list"

definition initial :: hook_state where
  "initial = \<lparr>messages = [], isConnected = False, isStreamingState = False,
     rateLimits = None, wsRef = None, currentMessageRef = [], sockets = []\<rparr>"

text \<open>
  \<open>wsRef.current\<close>: the referenced socket, if any. A JavaScript reference cannot
  dangle; a position outside \<open>sockets\<close> reads as \<open>null\<close>.
\<close>

definition wsRef_current :: "hook_state \<Rightarrow> WebSocket option" where
  "wsRef_current s =
     (case wsRef s of
        None \<Rightarrow> None
      | Some w \<Rightarrow> if w < length (sockets s) then Some (sockets s ! w) else None)"

definition WS_BASE :: string where
  "WS_BASE = ''ws://localhost:8000''"

subsection \<open>\<open>connect\<close> and the socket's handlers\<close>

text \<open>
  \<open>connect\<close> reads the token from local storage (the parameter \<open>token\<close>; a missing key
  is \<open>None\<close>). \<open>!token\<close> holds for a missing and for an empty token. Otherwise a new
  socket is created and stored in \<open>wsRef\<close>; the socket referenced before is not touched.
\<close>

definition connect :: "string option \<Rightarrow> hook_state \<Rightarrow> hook_state" where
  "connect token s =
     (case token of
        None \<Rightarrow> s
      | Some t \<Rightarrow>
          if t = [] then s
          else s\<lparr>sockets := sockets s @
                    [\<lparr>url = WS_BASE @ ''/ws/chat?token='' @ t,
                      readyState = CONNECTING, sent = []\<rparr>],
                 wsRef := Some (length (sockets s))\<rparr>)"

definition onopen :: "hook_state \<Rightarrow> hook_state" where
  "onopen s = s\<lparr>isConnected := True\<rparr>"

definition onclose :: "hook_state \<Rightarrow> hook_state" where
  "onclose s = s\<lparr>isConnected := False\<rparr>"

definition onerror :: "hook_state \<Rightarrow> hook_state" where
  "onerror s = s"

subsection \<open>\<open>ws.onmessage\<close>\<close>

text \<open>\<open>data.content || ''\<close>: an absent and an empty content both give the empty string.\<close>

definition content_or_empty :: "WebSocketMessage \<Rightarrow> string" where
  "content_or_empty data = (case wm_content data of None \<Rightarrow> [] | Some c \<Rightarrow> c)"

text \<open>
  The updater of the \<open>text_chunk\<close> case. \<open>prev[prev.length - 1]\<close> is \<open>undefined\<close> on the
  empty list, and then the test fails.
\<close>

definition chunk_update :: "string \<Rightarrow> ChatMessage list \<Rightarrow> ChatMessage list" where
  "chunk_update buffer prev =
     (if prev = [] then prev
      else let lastMessage = last prev in
        if role lastMessage = Assistant \<and> isStreaming lastMessage = Some True
        then butlast prev @ [lastMessage\<lparr>content := buffer\<rparr>]
        else prev)"

text \<open>The updater of the \<open>message_complete\<close> case.\<close>

definition complete_update :: "ChatMessage list \<Rightarrow> ChatMessage list" where
  "complete_update prev =
     (if prev = [] then prev
      else let lastMessage = last prev in
        if role lastMessage = Assistant
        then butlast prev @ [lastMessage\<lparr>isStreaming := Some False\<rparr>]
        else prev)"

text \<open>The \<open>switch\<close> on \<open>data.type\<close>, in the order of the source.\<close>

definition dispatch :: "WebSocketMessage \<Rightarrow> hook_state \<Rightarrow> hook_state" where
  "dispatch data s =
     (if wm_type data = ''connection'' then s
      else if wm_type data = ''rate_limit_info'' then
        (case wm_current_usage data of
           None \<Rightarrow> s
         | Some cu \<Rightarrow>
            (case wm_limits data of
               None \<Rightarrow> s
             | Some li \<Rightarrow> s\<lparr>rateLimits := Some \<lparr>current = cu, limits = li\<rparr>\<rparr>))
      else if wm_type data = ''message_received'' then s
      else if wm_type data = ''text_chunk'' then
        (let buffer = currentMessageRef s @ content_or_empty data in
         s\<lparr>currentMessageRef := buffer,
           messages := chunk_update buffer (messages s)\<rparr>)
      else if wm_type data = ''tool_executing'' then s
      else if wm_type data = ''tool_complete'' then s
      else if wm_type data = ''message_complete'' then
        s\<lparr>isStreamingState := False,
          messages := complete_update (messages s),
          currentMessageRef := []\<rparr>
      else if wm_type data = ''rate_limit_exceeded'' then s\<lparr>isStreamingState := False\<rparr>
      else if wm_type data = ''error'' then s\<lparr>isStreamingState := False\<rparr>
      else if wm_type data = ''pong'' then s
      else s)"

text \<open>
  \<open>JSON.parse\<close> belongs to the platform and is a parameter: it returns the decoded
  frame or throws. The body of the \<open>try\<close> block either throws or returns the new state;
  the \<open>catch\<close> clause logs and returns normally, with the state as it was when the
  exception was thrown (nothing is written before \<open>JSON.parse\<close> returns).
\<close>

datatype js_error = SyntaxError

type_synonym json_parse = "string \<Rightarrow> js_error + WebSocketMessage"

definition onmessage_try :: "json_parse \<Rightarrow> string \<Rightarrow> hook_state \<Rightarrow> js_error + hook_state" where
  "onmessage_try JSON_parse raw s =
     (case JSON_parse raw of
        Inl e \<Rightarrow> Inl e
      | Inr data \<Rightarrow> Inr (dispatch data s))"

definition onmessage :: "json_parse \<Rightarrow> string \<Rightarrow> hook_state \<Rightarrow> js_error + hook_state" where
  "onmessage JSON_parse raw s =
     (case onmessage_try JSON_parse raw s of
        Inl e \<Rightarrow> Inr s
      | Inr s' \<Rightarrow> Inr s')"

subsection \<open>\<open>disconnect\<close> and \<open>sendMessage\<close>\<close>

text \<open>
  \<open>close()\<close> of the browser's socket: a socket that is connecting or open starts
  closing; the \<open>close\<close> event comes later, as an event of its own.
\<close>

definition ws_close :: "WebSocket \<Rightarrow> WebSocket" where
  "ws_close ws =
     (if readyState ws = CONNECTING \<or> readyState ws = OPEN
      then ws\<lparr>readyState := CLOSING\<rparr> else ws)"

definition disconnect :: "hook_state \<Rightarrow> hook_state" where
  "disconnect s =
     (case wsRef s of
        None \<Rightarrow> s
      | Some w \<Rightarrow>
          s\<lparr>sockets := (if w < length (sockets s)
                          then (sockets s)[w := ws_close (sockets s ! w)]
                          else sockets s),
            wsRef := None\<rparr>)"

text \<open>\<open>Number.prototype.toString\<close> on a non-negative integer (\<open>Date.now()\<close>).\<close>

fun toString :: "nat \<Rightarrow> string" where
  "toString n =
     (if n < 10 then [''0123456789'' ! n]
      else toString (n div 10) @ [''0123456789'' ! (n mod 10)])"

declare toString.simps [simp del]

text \<open>
  \<open>sendMessage\<close>; \<open>now\<close> is the value of \<open>Date.now()\<close>. The only test is on the socket:
  it must be referenced and open.
\<close>

definition sendMessage :: "nat \<Rightarrow> string \<Rightarrow> string \<Rightarrow> hook_state \<Rightarrow> hook_state" where
  "sendMessage now chatId message s =
     (case wsRef s of
        None \<Rightarrow> s
      | Some w \<Rightarrow>
          if \<not> w < length (sockets s) then s
          else if readyState (sockets s ! w) \<noteq> OPEN then s
          else
            let userMessage = \<lparr>msg_id = toString now, role = User, content = message,
                                 isStreaming = None, timestamp = now\<rparr>;
                assistantMessage = \<lparr>msg_id = toString (now + 1), role = Assistant,
                                      content = [], isStreaming = Some True,
                                      timestamp = now\<rparr>
            in s\<lparr>messages := messages s @ [userMessage, assistantMessage],
                 isStreamingState := True,
                 currentMessageRef := [],
                 sockets := (sockets s)[w := (sockets s ! w)
                    \<lparr>sent := sent (sockets s ! w) @ [MessageFrame chatId message]\<rparr>]\<rparr>)"

text \<open>The keep-alive timer's callback; the timer exists while \<open>isConnected\<close> holds.\<close>

definition ping :: "hook_state \<Rightarrow> hook_state" where
  "ping s =
     (case wsRef s of
        None \<Rightarrow> s
      | Some w \<Rightarrow>
          if \<not> w < length (sockets s) then s
          else if readyState (sockets s ! w) \<noteq> OPEN then s
          else s\<lparr>sockets := (sockets s)[w := (sockets s ! w)
                    \<lparr>sent := sent (sockets s ! w) @ [PingFrame]\<rparr>]\<rparr>)"

subsection \<open>The caller: \<open>handleSendMessage\<close> of the chat page\<close>

text \<open>
  \<open>String.prototype.trim\<close>. A string is a list of code units below 256 here, and the
  white space and line terminators of JavaScript in that range are tab, line feed,
  vertical tab, form feed, carriage return, space and the no-break space U+00A0; all
  others lie above U+00FF.
\<close>

definition is_space :: "char \<Rightarrow> bool" where
  "is_space c =
     (c \<in> {CHR 0x09, CHR 0x0A, CHR 0x0B, CHR 0x0C, CHR 0x0D, CHR 0x20, CHR 0xA0})"

definition trim :: "string \<Rightarrow> string" where
  "trim x = rev (dropWhile is_space (rev (dropWhile is_space x)))"

text \<open>
  \<open>handleSendMessage\<close> reads the page's \<open>inputValue\<close> and \<open>selectedChat\<close> and the hook's
  \<open>isStreaming\<close>; it returns the new \<open>inputValue\<close> and the hook's new state.
  \<open>!selectedChat\<close> holds for \<open>null\<close> and for the empty string.
\<close>

definition handleSendMessage ::
  "nat \<Rightarrow> string \<Rightarrow> string option \<Rightarrow> hook_state \<Rightarrow> string \<times> hook_state" where
  "handleSendMessage now inputValue selectedChat s =
     (if trim inputValue = [] \<or> selectedChat = None \<or> selectedChat = Some []
         \<or> isStreamingState s
      then (inputValue, s)
      else (case selectedChat of
              None \<Rightarrow> (inputValue, s)
            | Some chat \<Rightarrow> ([], sendMessage now chat (trim inputValue) s)))"

subsection \<open>Events\<close>

text \<open>
  What the browser does around the handlers: the \<open>open\<close> event of a connecting socket
  makes it open and runs \<open>onopen\<close>; the \<open>close\<close> event makes it closed and runs
  \<open>onclose\<close>; a \<open>message\<close> event is delivered to an open socket only. An exception
  leaving a handler would leave the state as it is. The events name the socket by its
  position in \<open>sockets\<close>: every socket keeps the handlers \<open>connect\<close> gave it, also after
  \<open>wsRef\<close> has moved on.
\<close>

definition set_readyState :: "nat \<Rightarrow> ReadyState \<Rightarrow> hook_state \<Rightarrow> hook_state" where
  "set_readyState i r s = s\<lparr>sockets := (sockets s)[i := (sockets s ! i)\<lparr>readyState := r\<rparr>]\<rparr>"

definition socket_open :: "nat \<Rightarrow> hook_state \<Rightarrow> hook_state" where
  "socket_open i s =
     (if i < length (sockets s) \<and> readyState (sockets s ! i) = CONNECTING
      then onopen (set_readyState i OPEN s) else s)"

definition socket_close :: "nat \<Rightarrow> hook_state \<Rightarrow> hook_state" where
  "socket_close i s =
     (if i < length (sockets s) \<and> readyState (sockets s ! i) \<noteq> CLOSED
      then onclose (set_readyState i CLOSED s) else s)"

definition socket_message :: "json_parse \<Rightarrow> nat \<Rightarrow> string \<Rightarrow> hook_state \<Rightarrow> hook_state" where
  "socket_message JSON_parse i raw s =
     (if i < length (sockets s) \<and> readyState (sockets s ! i) = OPEN
      then (case onmessage JSON_parse raw s of Inl e \<Rightarrow> s | Inr s' \<Rightarrow> s')
      else s)"

datatype event =
    Connect "string option"
  | Disconnect
  | SendMessage nat string string
  | HandleSendMessage nat string "string option"
  | SocketOpen nat
  | SocketClose nat
  | SocketError nat
  | SocketMessage nat string
  | PingTick

fun step :: "json_parse \<Rightarrow> event \<Rightarrow> hook_state \<Rightarrow> hook_state" where
  "step P (Connect token) s = connect token s"
| "step P Disconnect s = disconnect s"
| "step P (SendMessage now chatId message) s = sendMessage now chatId message s"
| "step P (HandleSendMessage now inputValue selectedChat) s =
     snd (handleSendMessage now inputValue selectedChat s)"
| "step P (SocketOpen i) s = socket_open i s"
| "step P (SocketClose i) s = socket_close i s"
| "step P (SocketError i) s = onerror s"
| "step P (SocketMessage i raw) s = socket_message P i raw s"
| "step P PingTick s = (if isConnected s then ping s else s)"

definition run :: "json_parse \<Rightarrow> event list \<Rightarrow> hook_state \<Rightarrow> hook_state" where
  "run P es s = foldl (\<lambda>s e. step P e s) s es"

text \<open>Delivery of a list of raw frames, in order, to the handler of one socket.\<close>

definition deliver :: "json_parse \<Rightarrow> string list \<Rightarrow> hook_state \<Rightarrow> hook_state" where
  "deliver P raws s =
     foldl (\<lambda>s raw. case onmessage P raw s of Inl e \<Rightarrow> s | Inr s' \<Rightarrow> s') s raws"

subsection \<open>Queued state updates\<close>

text \<open>
  React does not run a state update where \<open>setMessages\<close>, \<open>setIsStreaming\<close> or
  \<open>setRateLimits\<close> is called: the update is queued and runs at the next render, in the
  order of the calls. The updates of the hook, as they are queued: the three updater
  functions given to \<open>setMessages\<close> and the two plain values. The updater of the
  \<open>text_chunk\<close> case carries no value: it reads \<open>currentMessageRef.current\<close> when it
  runs. Updates of different pieces of state do not read each other, so one queue for
  all of them gives the same result as one queue each.
\<close>

datatype setState =
    AppendTurn ChatMessage ChatMessage
  | ChunkUpdater
  | CompleteUpdater
  | SetIsStreaming bool
  | SetRateLimits RateLimits

fun run_update :: "setState \<Rightarrow> hook_state \<Rightarrow> hook_state" where
  "run_update (AppendTurn userMessage assistantMessage) s =
     s\<lparr>messages := messages s @ [userMessage, assistantMessage]\<rparr>"
| "run_update ChunkUpdater s =
     s\<lparr>messages := chunk_update (currentMessageRef s) (messages s)\<rparr>"
| "run_update CompleteUpdater s = s\<lparr>messages := complete_update (messages s)\<rparr>"
| "run_update (SetIsStreaming b) s = s\<lparr>isStreamingState := b\<rparr>"
| "run_update (SetRateLimits r) s = s\<lparr>rateLimits := Some r\<rparr>"

text \<open>
  The hook between two renders: the state (React state as of the last render,
  references and sockets as they are now) and the queue. A render runs the queue.
\<close>

type_synonym queued = "hook_state \<times> setState list"

definition render :: "queued \<Rightarrow> queued" where
  "render st = (foldl (\<lambda>s u. run_update u s) (fst st) (snd st), [])"

text \<open>The \<open>switch\<close> on \<open>data.type\<close> again, with the state updates queued.\<close>

definition dispatch_queued :: "WebSocketMessage \<Rightarrow> queued \<Rightarrow> queued" where
  "dispatch_queued data st =
     (let s = fst st; q = snd st in
      if wm_type data = ''connection'' then st
      else if wm_type data = ''rate_limit_info'' then
        (case wm_current_usage data of
           None \<Rightarrow> st
         | Some cu \<Rightarrow>
            (case wm_limits data of
               None \<Rightarrow> st
             | Some li \<Rightarrow> (s, q @ [SetRateLimits \<lparr>current = cu, limits = li\<rparr>])))
      else if wm_type data = ''message_received'' then st
      else if wm_type data = ''text_chunk'' then
        (s\<lparr>currentMessageRef := currentMessageRef s @ content_or_empty data\<rparr>,
         q @ [ChunkUpdater])
      else if wm_type data = ''tool_executing'' then st
      else if wm_type data = ''tool_complete'' then st
      else if wm_type data = ''message_complete'' then
        (s\<lparr>currentMessageRef := []\<rparr>, q @ [SetIsStreaming False, CompleteUpdater])
      else if wm_type data = ''rate_limit_exceeded'' then (s, q @ [SetIsStreaming False])
      else if wm_type data = ''error'' then (s, q @ [SetIsStreaming False])
      else if wm_type data = ''pong'' then st
      else st)"

text \<open>\<open>ws.onmessage\<close> with queued updates: a frame that does not parse changes nothing.\<close>

definition onmessage_queued :: "json_parse \<Rightarrow> string \<Rightarrow> queued \<Rightarrow> queued" where
  "onmessage_queued JSON_parse raw st =
     (case JSON_parse raw of
        Inl e \<Rightarrow> st
      | Inr data \<Rightarrow> dispatch_queued data st)"

definition deliver_queued :: "json_parse \<Rightarrow> string list \<Rightarrow> queued \<Rightarrow> queued" where
  "deliver_queued P raws st = foldl (\<lambda>st raw. onmessage_queued P raw st) st raws"

text \<open>\<open>sendMessage\<close> with queued updates.\<close>

definition sendMessage_queued :: "nat \<Rightarrow> string \<Rightarrow> string \<Rightarrow> queued \<Rightarrow> queued" where
  "sendMessage_queued now chatId message st =
     (let s = fst st; q = snd st in
      case wsRef s of
        None \<Rightarrow> st
      | Some w \<Rightarrow>
          if \<not> w < length (sockets s) then st
          else if readyState (sockets s ! w) \<noteq> OPEN then st
          else
            let userMessage = \<lparr>msg_id = toString now, role = User, content = message,
                                 isStreaming = None, timestamp = now\<rparr>;
                assistantMessage = \<lparr>msg_id = toString (now + 1), role = Assistant,
                                      content = [], isStreaming = Some True,
                                      timestamp = now\<rparr>
            in (s\<lparr>currentMessageRef := [],
                  sockets := (sockets s)[w := (sockets s ! w)
                    \<lparr>sent := sent (sockets s ! w) @ [MessageFrame chatId message]\<rparr>]\<rparr>,
                q @ [AppendTurn userMessage assistantMessage, SetIsStreaming True]))"

subsection \<open>Properties of the message store\<close>

definition is_open :: "ChatMessage \<Rightarrow> bool" where
  "is_open m = (isStreaming m = Some True)"

text \<open>
  At most one message of the store is streaming, and a streaming message is the last
  one.
\<close>

definition at_most_one_streaming :: "ChatMessage list \<Rightarrow> bool" where
  "at_most_one_streaming ms =
     (length (filter is_open ms) \<le> 1 \<and>
      (filter is_open ms = [] \<or> (ms \<noteq> [] \<and> is_open (last ms))))"

text \<open>
  The events of a run in which a message is sent through the page only and no turn is
  ended by an error: no direct call of \<open>sendMessage\<close>, and no frame of type
  \<open>rate_limit_exceeded\<close> or \<open>error\<close>.
\<close>

fun guarded :: "json_parse \<Rightarrow> event \<Rightarrow> bool" where
  "guarded P (SendMessage now chatId message) = False"
| "guarded P (SocketMessage i raw) =
     (case P raw of
        Inl e \<Rightarrow> True
      | Inr data \<Rightarrow> wm_type data \<noteq> ''rate_limit_exceeded'' \<and> wm_type data \<noteq> ''error'')"
| "guarded P e = True"

text \<open>The last message of the store is an assistant message that is streaming.\<close>

definition placeholder_open :: "ChatMessage list \<Rightarrow> bool" where
  "placeholder_open ms =
     (ms \<noteq> [] \<and> role (last ms) = Assistant \<and> isStreaming (last ms) = Some True)"

text \<open>
  The invariant of a guarded run: no message before the last one is streaming, and a
  streaming last message is an assistant message of a turn in progress.
\<close>

definition store_inv :: "hook_state \<Rightarrow> bool" where
  "store_inv s =
     (filter is_open (butlast (messages s)) = [] \<and>
      (messages s = [] \<or> \<not> is_open (last (messages s)) \<or>
       (role (last (messages s)) = Assistant \<and> isStreamingState s)))"

subsection \<open>Sample inputs\<close>

definition frame :: "string \<Rightarrow> WebSocketMessage" where
  "frame t = \<lparr>wm_type = t, wm_content = None, wm_chunk_id = None, wm_delta = None,
     wm_status = None, wm_user_id = None, wm_timestamp = None, wm_current_usage = None,
     wm_limits = None, wm_arguments = None, wm_call_id = None, wm_name = None\<rparr>"

definition text_chunk :: "string \<Rightarrow> WebSocketMessage" where
  "text_chunk d = (frame ''text_chunk'')\<lparr>wm_content := Some d\<rparr>"

definition usage :: "int \<Rightarrow> Usage" where
  "usage n = \<lparr>burst = n, per_chat = n, hourly = n, daily = n\<rparr>"

text \<open>
  A decoder for the sample runs: it knows nine raw frames and rejects every other
  string, as \<open>JSON.parse\<close> rejects a string that is not JSON.
\<close>

definition sample_parse :: json_parse where
  "sample_parse raw =
     (if raw = ''chunk Hel'' then Inr (text_chunk ''Hel'')
      else if raw = ''chunk lo '' then Inr (text_chunk ''lo '')
      else if raw = ''chunk world'' then Inr (text_chunk ''world'')
      else if raw = ''message_complete'' then Inr (frame ''message_complete'')
      else if raw = ''rate_limit_info 1 5'' then
        Inr ((frame ''rate_limit_info'')
               \<lparr>wm_current_usage := Some (usage 1), wm_limits := Some (usage 5)\<rparr>)
      else if raw = ''rate_limit_info 3 5'' then
        Inr ((frame ''rate_limit_info'')
               \<lparr>wm_current_usage := Some (usage 3), wm_limits := Some (usage 5)\<rparr>)
      else if raw = ''rate_limit_info 2'' then
        Inr ((frame ''rate_limit_info'')\<lparr>wm_current_usage := Some (usage 2)\<rparr>)
      else if raw = ''error'' then Inr (frame ''error'')
      else if raw = ''rate_limit_exceeded'' then Inr (frame ''rate_limit_exceeded'')
      else Inl SyntaxError)"

text \<open>A connected hook, and the same hook in the middle of a turn.\<close>

definition connected :: hook_state where
  "connected = run sample_parse [Connect (Some ''tok''), SocketOpen 0] initial"

definition mid_turn :: hook_state where
  "mid_turn = sendMessage 5 ''c1'' ''Hi'' connected"

section \<open>Evaluation of the sample inputs\<close>

lemma connected_eq:
  "connected = \<lparr>messages = [], isConnected = True, isStreamingState = False,
     rateLimits = None, wsRef = Some 0, currentMessageRef = [],
     sockets = [\<lparr>url = ''ws://localhost:8000/ws/chat?token=tok'',
                  readyState = OPEN, sent = []\<rparr>]\<rparr>"
  by (simp add: connected_def run_def initial_def connect_def socket_open_def onopen_def
      set_readyState_def WS_BASE_def)

lemma mid_turn_eq:
  "mid_turn = \<lparr>messages =
      [\<lparr>msg_id = ''5'', role = User, content = ''Hi'', isStreaming = None,
         timestamp = 5\<rparr>,
       \<lparr>msg_id = ''6'', role = Assistant, content = [], isStreaming = Some True,
         timestamp = 5\<rparr>],
     isConnected = True, isStreamingState = True, rateLimits = None,
     wsRef = Some 0, currentMessageRef = [],
     sockets = [\<lparr>url = ''ws://localhost:8000/ws/chat?token=tok'',
                  readyState = OPEN, sent = [MessageFrame ''c1'' ''Hi'']\<rparr>]\<rparr>"
  by (simp add: mid_turn_def connected_eq sendMessage_def toString.simps)

lemma sample_parse_simps:
  "sample_parse ''rate_limit_info 2'' =
     Inr ((frame ''rate_limit_info'')\<lparr>wm_current_usage := Some (usage 2)\<rparr>)"
  "sample_parse ''rate_limit_info 1 5'' =
     Inr ((frame ''rate_limit_info'')
            \<lparr>wm_current_usage := Some (usage 1), wm_limits := Some (usage 5)\<rparr>)"
  "sample_parse ''rate_limit_info 3 5'' =
     Inr ((frame ''rate_limit_info'')
            \<lparr>wm_current_usage := Some (usage 3), wm_limits := Some (usage 5)\<rparr>)"
  "sample_parse ''chunk Hel'' = Inr (text_chunk ''Hel'')"
  "sample_parse ''chunk lo '' = Inr (text_chunk ''lo '')"
  "sample_parse ''chunk world'' = Inr (text_chunk ''world'')"
  "sample_parse ''message_complete'' = Inr (frame ''message_complete'')"
  "sample_parse ''error'' = Inr (frame ''error'')"
  "sample_parse ''rate_limit_exceeded'' = Inr (frame ''rate_limit_exceeded'')"
  "sample_parse ''{oops'' = Inl SyntaxError"
  by (simp_all add: sample_parse_def)

section \<open>The handler of inbound frames\<close>

lemma onmessage_parsed: "P raw = Inr data \<Longrightarrow> onmessage P raw s = Inr (dispatch data s)"
  by (simp add: onmessage_def onmessage_try_def)

text \<open>
  Claim C7. A raw frame that \<open>JSON.parse\<close> rejects makes the \<open>try\<close> block throw, the
  handler catches the exception and returns normally, and the whole state (message
  store, streaming flag and rate-limit snapshot included) is as before; the same holds
  for the delivery of the frame to any socket.
\<close>

theorem malformed_frame_ignored:
  "JSON_parse raw = Inl e \<Longrightarrow>
   onmessage_try JSON_parse raw s = Inl e \<and>
   onmessage JSON_parse raw s = Inr s \<and>
   socket_message JSON_parse i raw s = s"
  by (simp add: onmessage_def onmessage_try_def socket_message_def)

theorem malformed_frame_ignored_witness:
  "sample_parse ''{oops'' = Inl SyntaxError \<and>
   onmessage sample_parse ''{oops'' mid_turn = Inr mid_turn \<and>
   socket_message sample_parse 0 ''{oops'' mid_turn = mid_turn"
  using malformed_frame_ignored [of sample_parse "''{oops''" SyntaxError mid_turn 0]
  by (simp add: sample_parse_simps)

section \<open>The rate-limit snapshot\<close>

text \<open>
  Claim C9. A \<open>rate_limit_info\<close> frame without \<open>current_usage\<close> or without \<open>limits\<close>
  leaves the state, and so the stored snapshot, unchanged: there is no partial update.
\<close>

theorem rate_limit_info_incomplete:
  "JSON_parse raw = Inr data \<Longrightarrow> wm_type data = ''rate_limit_info'' \<Longrightarrow>
   wm_current_usage data = None \<or> wm_limits data = None \<Longrightarrow>
   onmessage JSON_parse raw s = Inr s"
  by (auto simp add: onmessage_parsed dispatch_def split: option.splits)

theorem rate_limit_info_incomplete_witness:
  "rateLimits (deliver sample_parse [''rate_limit_info 1 5''] connected)
     = Some \<lparr>current = usage 1, limits = usage 5\<rparr> \<and>
   onmessage sample_parse ''rate_limit_info 2''
       (deliver sample_parse [''rate_limit_info 1 5''] connected)
     = Inr (deliver sample_parse [''rate_limit_info 1 5''] connected)"
  using rate_limit_info_incomplete [of sample_parse "''rate_limit_info 2''"
      "(frame ''rate_limit_info'')\<lparr>wm_current_usage := Some (usage 2)\<rparr>"
      "deliver sample_parse [''rate_limit_info 1 5''] connected"]
  by (simp add: sample_parse_simps frame_def deliver_def onmessage_parsed dispatch_def)

text \<open>
  Claim C4, as stated, fails: a second \<open>rate_limit_info\<close> frame that carries
  \<open>current_usage\<close> only is skipped, and the monitor still holds the first frame's
  snapshot.
\<close>

theorem rate_limit_info_skipped_counterexample:
  "sample_parse ''rate_limit_info 2'' =
     Inr ((frame ''rate_limit_info'')\<lparr>wm_current_usage := Some (usage 2)\<rparr>) \<and>
   rateLimits (deliver sample_parse [''rate_limit_info 1 5'', ''rate_limit_info 2''] connected)
     = Some \<lparr>current = usage 1, limits = usage 5\<rparr> \<and>
   usage 1 \<noteq> usage 2"
  by (simp add: sample_parse_simps frame_def deliver_def onmessage_parsed dispatch_def
      usage_def)

text \<open>
  Claim C4, amended. A \<open>rate_limit_info\<close> frame that carries both \<open>current_usage\<close> and
  \<open>limits\<close> replaces the stored snapshot wholesale: after a first \<open>rate_limit_info\<close>
  frame and a second one with both fields, the monitor holds exactly the second frame's
  two fields, whatever the first frame carried, and nothing else of the state has
  changed.
\<close>

theorem rate_limit_info_replaces:
  assumes "JSON_parse raw1 = Inr d1" and "wm_type d1 = ''rate_limit_info''"
    and "JSON_parse raw2 = Inr d2" and "wm_type d2 = ''rate_limit_info''"
    and "wm_current_usage d2 = Some cu" and "wm_limits d2 = Some li"
  shows "deliver JSON_parse [raw1, raw2] s =
           s\<lparr>rateLimits := Some \<lparr>current = cu, limits = li\<rparr>\<rparr>"
  using assms
  by (simp add: deliver_def onmessage_parsed dispatch_def split: option.splits)

theorem rate_limit_info_replaces_witness:
  "deliver sample_parse [''rate_limit_info 1 5'', ''rate_limit_info 3 5''] mid_turn
     = mid_turn\<lparr>rateLimits := Some \<lparr>current = usage 3, limits = usage 5\<rparr>\<rparr>"
  using rate_limit_info_replaces [of sample_parse "''rate_limit_info 1 5''"
      "(frame ''rate_limit_info'')
         \<lparr>wm_current_usage := Some (usage 1), wm_limits := Some (usage 5)\<rparr>"
      "''rate_limit_info 3 5''"
      "(frame ''rate_limit_info'')
         \<lparr>wm_current_usage := Some (usage 3), wm_limits := Some (usage 5)\<rparr>"
      "usage 3" "usage 5" mid_turn]
  by (simp add: sample_parse_simps frame_def)

section \<open>The end of a turn\<close>

text \<open>
  Claim C6, evaluated on the code. In the middle of a turn (the placeholder is the last
  message and is streaming), an \<open>error\<close> frame and a \<open>rate_limit_exceeded\<close> frame clear
  the streaming flag and leave the store as it is: the placeholder keeps
  \<open>isStreaming = true\<close>. A \<open>message_complete\<close> frame in the same state seals it.
\<close>

theorem error_frame_leaves_placeholder_open:
  "messages (deliver sample_parse [''error''] mid_turn) = messages mid_turn \<and>
   messages (deliver sample_parse [''rate_limit_exceeded''] mid_turn) = messages mid_turn \<and>
   is_open (last (messages (deliver sample_parse [''error''] mid_turn))) \<and>
   is_open (last (messages (deliver sample_parse [''rate_limit_exceeded''] mid_turn))) \<and>
   \<not> isStreamingState (deliver sample_parse [''error''] mid_turn) \<and>
   \<not> isStreamingState (deliver sample_parse [''rate_limit_exceeded''] mid_turn) \<and>
   \<not> is_open (last (messages (deliver sample_parse [''message_complete''] mid_turn)))"
  by (simp add: sample_parse_simps frame_def deliver_def onmessage_parsed dispatch_def
      mid_turn_eq is_open_def complete_update_def)

section \<open>\<open>disconnect\<close>\<close>

text \<open>
  Claim C8. \<open>disconnect\<close> closes the referenced socket and clears the reference, and
  nothing else: the message store, the streaming flag, the rate-limit snapshot, the
  running buffer and \<open>isConnected\<close> are as before. In the middle of a turn the streaming
  flag is true before and after, as the instance below shows.
\<close>

theorem disconnect_keeps_store:
  "messages (disconnect s) = messages s \<and>
   isStreamingState (disconnect s) = isStreamingState s \<and>
   rateLimits (disconnect s) = rateLimits s \<and>
   currentMessageRef (disconnect s) = currentMessageRef s \<and>
   isConnected (disconnect s) = isConnected s \<and>
   wsRef (disconnect s) = None \<and>
   sockets (disconnect s) =
     (case wsRef s of None \<Rightarrow> sockets s
      | Some w \<Rightarrow> (sockets s)[w := ws_close (sockets s ! w)])"
  by (simp add: disconnect_def list_update_beyond split: option.splits)

theorem disconnect_keeps_store_witness:
  "isStreamingState mid_turn \<and> isStreamingState (disconnect mid_turn) \<and>
   messages (disconnect mid_turn) = messages mid_turn \<and>
   rateLimits (disconnect mid_turn) = rateLimits mid_turn \<and>
   wsRef (disconnect mid_turn) = None \<and>
   map readyState (sockets (disconnect mid_turn)) = [CLOSING]"
  using disconnect_keeps_store [of mid_turn]
  by (simp add: mid_turn_eq ws_close_def)

section \<open>\<open>sendMessage\<close> and its caller\<close>

text \<open>
  Claim C1, as stated, fails: in the middle of a turn the streaming flag is true, and
  \<open>sendMessage\<close> on the open socket still appends a user message and a placeholder
  and hands one more frame to the socket.
\<close>

theorem sendMessage_ignores_flag_counterexample:
  "isStreamingState mid_turn \<and>
   length (messages mid_turn) = 2 \<and>
   length (messages (sendMessage 7 ''c1'' ''again'' mid_turn)) = 4 \<and>
   map sent (sockets mid_turn) = [[MessageFrame ''c1'' ''Hi'']] \<and>
   map sent (sockets (sendMessage 7 ''c1'' ''again'' mid_turn)) =
     [[MessageFrame ''c1'' ''Hi'', MessageFrame ''c1'' ''again'']]"
  by (simp add: mid_turn_eq sendMessage_def)

text \<open>
  Claim C1, amended. The rejection of a send during a turn is made by the caller: for
  every state in which the streaming flag is true, \<open>handleSendMessage\<close> returns the
  input and the hook's state unchanged (no message appended, no frame emitted).
  \<open>sendMessage\<close> itself does not read the flag: it leaves the state unchanged when no
  socket is referenced or the referenced socket is not open, and changes it whenever
  the referenced socket is open.
\<close>

theorem send_rejected:
  "(isStreamingState s \<longrightarrow> handleSendMessage now inputValue selectedChat s = (inputValue, s)) \<and>
   ((case wsRef_current s of None \<Rightarrow> True | Some ws \<Rightarrow> readyState ws \<noteq> OPEN) \<longrightarrow>
      sendMessage now chatId message s = s) \<and>
   ((case wsRef_current s of None \<Rightarrow> False | Some ws \<Rightarrow> readyState ws = OPEN) \<longrightarrow>
      sendMessage now chatId message s \<noteq> s)"
proof (intro conjI impI)
  assume "isStreamingState s"
  then show "handleSendMessage now inputValue selectedChat s = (inputValue, s)"
    by (simp add: handleSendMessage_def)
next
  assume "case wsRef_current s of None \<Rightarrow> True | Some ws \<Rightarrow> readyState ws \<noteq> OPEN"
  then show "sendMessage now chatId message s = s"
    by (auto simp add: sendMessage_def wsRef_current_def split: option.splits if_splits)
next
  assume a: "case wsRef_current s of None \<Rightarrow> False | Some ws \<Rightarrow> readyState ws = OPEN"
  then obtain w where w: "wsRef s = Some w" "w < length (sockets s)"
      "readyState (sockets s ! w) = OPEN"
    by (auto simp add: wsRef_current_def split: option.splits if_splits)
  then have "length (messages (sendMessage now chatId message s)) = length (messages s) + 2"
    by (simp add: sendMessage_def Let_def)
  then show "sendMessage now chatId message s \<noteq> s"
    by auto
qed

theorem send_rejected_witness:
  "isStreamingState mid_turn \<and>
   handleSendMessage 7 ''again'' (Some ''c1'') mid_turn = (''again'', mid_turn) \<and>
   sendMessage 7 ''c1'' ''again'' (disconnect mid_turn) = disconnect mid_turn \<and>
   sendMessage 7 ''c1'' ''again'' mid_turn \<noteq> mid_turn"
  using send_rejected [of mid_turn 7 "''again''" "Some ''c1''" "''c1''" "''again''"]
    send_rejected [of "disconnect mid_turn" 7 "''again''" "Some ''c1''" "''c1''" "''again''"]
  by (simp add: mid_turn_eq wsRef_current_def disconnect_def)

section \<open>\<open>connect\<close>\<close>

text \<open>
  Claim C5, as stated, fails: \<open>connect\<close> on a hook whose socket is open is not a
  no-op. It creates a second socket and moves the reference to it; the first socket is
  still open.
\<close>

theorem connect_again_counterexample:
  "wsRef_current connected \<noteq> None \<and>
   connect (Some ''tok'') connected \<noteq> connected \<and>
   wsRef (connect (Some ''tok'') connected) = Some 1 \<and>
   map readyState (sockets (connect (Some ''tok'') connected)) = [OPEN, CONNECTING]"
  by (simp add: connected_eq connect_def wsRef_current_def)

text \<open>
  Claim C5, amended. \<open>connect\<close> is a no-op exactly when no credential is stored (the
  token is missing or empty). With a credential, in every state, also when a socket is
  connecting or open, it creates one new socket in state connecting and makes it the
  referenced one; the sockets that existed before are unchanged (none is closed), and
  the store, the flags, the snapshot and the buffer are unchanged.
\<close>

theorem connect_effect:
  "(token = None \<or> token = Some [] \<longrightarrow> connect token s = s) \<and>
   (token \<noteq> None \<and> token \<noteq> Some [] \<longrightarrow>
      wsRef (connect token s) = Some (length (sockets s)) \<and>
      length (sockets (connect token s)) = length (sockets s) + 1 \<and>
      take (length (sockets s)) (sockets (connect token s)) = sockets s \<and>
      readyState (last (sockets (connect token s))) = CONNECTING \<and>
      sent (last (sockets (connect token s))) = [] \<and>
      messages (connect token s) = messages s \<and>
      isConnected (connect token s) = isConnected s \<and>
      isStreamingState (connect token s) = isStreamingState s \<and>
      rateLimits (connect token s) = rateLimits s \<and>
      currentMessageRef (connect token s) = currentMessageRef s)"
  by (auto simp add: connect_def split: option.splits)

theorem connect_effect_witness:
  "connect None connected = connected \<and>
   connect (Some []) connected = connected \<and>
   wsRef (connect (Some ''t2'') connected) = Some 1 \<and>
   take 1 (sockets (connect (Some ''t2'') connected)) = sockets connected \<and>
   map readyState (sockets (connect (Some ''t2'') connected)) = [OPEN, CONNECTING]"
  using connect_effect [of None connected] connect_effect [of "Some []" connected]
    connect_effect [of "Some ''t2''" connected]
  by (simp add: connected_eq connect_def)

section \<open>The streaming accumulator\<close>

lemma chunk_update_closed: "\<not> placeholder_open ms \<Longrightarrow> chunk_update b ms = ms"
  by (auto simp add: chunk_update_def placeholder_open_def Let_def)

lemma chunk_update_open: "placeholder_open ms \<Longrightarrow> chunk_update b ms = butlast ms @ [(last ms)\<lparr>content := b\<rparr>]"
  by (auto simp add: chunk_update_def placeholder_open_def Let_def)

text \<open>
  Claim C10. A \<open>text_chunk\<close> frame appends its delta to the running buffer also when
  the last entry of the store is not an open assistant placeholder, and the store is
  then unchanged. If a later \<open>text_chunk\<close> frame arrives in a state whose buffer is
  still the one left by the first frame and whose last entry is an open placeholder, the
  placeholder's content becomes the whole buffer: the old buffer, the ignored delta and
  the new delta.
\<close>

theorem text_chunk_buffer:
  assumes "wm_type d1 = ''text_chunk''" and "wm_type d2 = ''text_chunk''"
    and "\<not> placeholder_open (messages s)"
    and "currentMessageRef s2 = currentMessageRef (dispatch d1 s)"
    and "placeholder_open (messages s2)"
  shows "messages (dispatch d1 s) = messages s \<and>
         currentMessageRef (dispatch d1 s) = currentMessageRef s @ content_or_empty d1 \<and>
         messages (dispatch d2 s2) =
           butlast (messages s2) @
           [(last (messages s2))
              \<lparr>content := currentMessageRef s @ content_or_empty d1 @ content_or_empty d2\<rparr>]"
  using assms
  by (simp add: dispatch_def Let_def chunk_update_closed chunk_update_open)

theorem text_chunk_buffer_witness:
  "messages (dispatch (text_chunk ''Hel'') connected) = messages connected \<and>
   currentMessageRef (dispatch (text_chunk ''Hel'') connected) = ''Hel'' \<and>
   messages (dispatch (text_chunk ''lo '') (mid_turn\<lparr>currentMessageRef := ''Hel''\<rparr>)) =
     [\<lparr>msg_id = ''5'', role = User, content = ''Hi'', isStreaming = None, timestamp = 5\<rparr>,
      \<lparr>msg_id = ''6'', role = Assistant, content = ''Hello '', isStreaming = Some True,
        timestamp = 5\<rparr>]"
  using text_chunk_buffer [of "text_chunk ''Hel''" "text_chunk ''lo ''" connected
      "mid_turn\<lparr>currentMessageRef := ''Hel''\<rparr>"]
  by (simp add: connected_eq mid_turn_eq text_chunk_def frame_def placeholder_open_def
      content_or_empty_def dispatch_def chunk_update_def)

lemma deliver_Nil: "deliver P [] s = s"
  by (simp add: deliver_def)

lemma deliver_Cons:
  "deliver P (raw # raws) s =
     deliver P raws (case onmessage P raw s of Inl e \<Rightarrow> s | Inr s' \<Rightarrow> s')"
  by (simp add: deliver_def)

lemma deliver_append: "deliver P (xs @ ys) s = deliver P ys (deliver P xs s)"
  by (simp add: deliver_def)

lemma dispatch_chunk_open:
  assumes "wm_type f = ''text_chunk''" and "messages s = ms @ [m]"
    and "role m = Assistant" and "isStreaming m = Some True"
  shows "dispatch f s =
           s\<lparr>currentMessageRef := currentMessageRef s @ content_or_empty f,
             messages := ms @ [m\<lparr>content := currentMessageRef s @ content_or_empty f\<rparr>]\<rparr>"
  using assms by (simp add: dispatch_def Let_def chunk_update_def)

lemma complete_update_snoc:
  "role m = Assistant \<Longrightarrow> complete_update (ms @ [m]) = ms @ [m\<lparr>isStreaming := Some False\<rparr>]"
  by (simp add: complete_update_def)

lemma complete_update_snoc2:
  "role m = Assistant \<Longrightarrow>
   complete_update (ms @ [u, m]) = ms @ [u, m\<lparr>isStreaming := Some False\<rparr>]"
  using complete_update_snoc [of m "ms @ [u]"] by simp

lemma deliver_chunks:
  "map P raws = map Inr fs \<Longrightarrow> \<forall>f\<in>set fs. wm_type f = ''text_chunk'' \<Longrightarrow>
   messages s = ms @ [m] \<Longrightarrow> role m = Assistant \<Longrightarrow> isStreaming m = Some True \<Longrightarrow>
   content m = currentMessageRef s \<Longrightarrow>
   messages (deliver P raws s) =
     ms @ [m\<lparr>content := currentMessageRef s @ concat (map content_or_empty fs)\<rparr>] \<and>
   currentMessageRef (deliver P raws s) =
     currentMessageRef s @ concat (map content_or_empty fs)"
proof (induction raws arbitrary: fs s m)
  case Nil
  then show ?case by (simp add: deliver_Nil)
next
  case (Cons raw raws)
  from Cons.prems(1) obtain f fs' where fs: "fs = f # fs'" "P raw = Inr f"
      "map P raws = map Inr fs'"
    by (cases fs) auto
  from Cons.prems(2) fs have ty: "wm_type f = ''text_chunk''"
      and rest: "\<forall>f\<in>set fs'. wm_type f = ''text_chunk''"
    by simp_all
  let ?b = "currentMessageRef s @ content_or_empty f"
  let ?s = "dispatch f s"
  have d: "?s = s\<lparr>currentMessageRef := ?b, messages := ms @ [m\<lparr>content := ?b\<rparr>]\<rparr>"
    using dispatch_chunk_open [OF ty Cons.prems(3) Cons.prems(4) Cons.prems(5)] .
  have step: "deliver P (raw # raws) s = deliver P raws ?s"
    using fs(2) by (simp add: deliver_Cons onmessage_parsed)
  have "messages (deliver P raws ?s) =
          ms @ [(m\<lparr>content := ?b\<rparr>)\<lparr>content := currentMessageRef ?s @ concat (map content_or_empty fs')\<rparr>] \<and>
        currentMessageRef (deliver P raws ?s) =
          currentMessageRef ?s @ concat (map content_or_empty fs')"
    by (rule Cons.IH [OF fs(3) rest]) (simp_all add: d Cons.prems)
  then show ?case
    by (simp add: step fs(1) d)
qed

text \<open>
  When a render follows every handler, an accepted \<open>sendMessage\<close>, \<open>text_chunk\<close>
  frames in order and a \<open>message_complete\<close> frame leave the store with the two messages
  of the turn appended, the assistant message sealed, with the concatenation of the
  deltas as its content.
\<close>

lemma rendered_chunks_concatenate:
  assumes "wsRef_current s = Some ws" and "readyState ws = OPEN"
    and "map JSON_parse raws = map Inr fs"
    and "\<forall>f\<in>set fs. wm_type f = ''text_chunk''"
    and "JSON_parse rawc = Inr c" and "wm_type c = ''message_complete''"
  shows "messages (deliver JSON_parse (raws @ [rawc]) (sendMessage now chatId text s)) =
           messages s @
           [\<lparr>msg_id = toString now, role = User, content = text, isStreaming = None,
              timestamp = now\<rparr>,
            \<lparr>msg_id = toString (now + 1), role = Assistant,
              content = concat (map content_or_empty fs), isStreaming = Some False,
              timestamp = now\<rparr>]"
proof -
  let ?u = "\<lparr>msg_id = toString now, role = User, content = text, isStreaming = None,
              timestamp = now\<rparr>"
  let ?a = "\<lparr>msg_id = toString (now + 1), role = Assistant, content = [],
              isStreaming = Some True, timestamp = now\<rparr>"
  let ?s1 = "sendMessage now chatId text s"
  let ?s2 = "deliver JSON_parse raws ?s1"
  from assms(1,2) obtain w where w: "wsRef s = Some w" "w < length (sockets s)"
      "readyState (sockets s ! w) = OPEN"
    by (auto simp add: wsRef_current_def split: option.splits if_splits)
  have m1: "messages ?s1 = (messages s @ [?u]) @ [?a]"
    and b1: "currentMessageRef ?s1 = []"
    using w by (simp_all add: sendMessage_def Let_def)
  have "messages ?s2 =
          (messages s @ [?u]) @ [?a\<lparr>content := currentMessageRef ?s1 @ concat (map content_or_empty fs)\<rparr>] \<and>
        currentMessageRef ?s2 = currentMessageRef ?s1 @ concat (map content_or_empty fs)"
    by (rule deliver_chunks [OF assms(3) assms(4) m1]) (simp_all add: b1)
  then have m2: "messages ?s2 =
      (messages s @ [?u]) @ [?a\<lparr>content := concat (map content_or_empty fs)\<rparr>]"
    by (simp add: b1)
  have "deliver JSON_parse (raws @ [rawc]) ?s1 = dispatch c ?s2"
    using assms(5) by (simp add: deliver_append deliver_Cons deliver_Nil onmessage_parsed)
  moreover have "messages (dispatch c ?s2) = complete_update (messages ?s2)"
    using assms(6) by (simp add: dispatch_def)
  ultimately show ?thesis
    by (simp add: m2 complete_update_snoc2)
qed

lemma render_dispatch_queued: "render (dispatch_queued data (s, [])) = (dispatch data s, [])"
  by (simp add: render_def dispatch_queued_def dispatch_def Let_def split: option.splits)

lemma render_sendMessage_queued:
  "render (sendMessage_queued now chatId message (s, [])) =
     (sendMessage now chatId message s, [])"
  by (simp add: render_def sendMessage_queued_def sendMessage_def Let_def
      split: option.splits)

text \<open>
  Claim C3, evaluated on the code. The turn of \<open>mid_turn\<close> has been sent and rendered.
  The frames \<open>text_chunk\<close> with \<open>Hel\<close>, \<open>text_chunk\<close> with \<open>lo \<close> and
  \<open>message_complete\<close> are handled before the next render (React may run an updater
  at once when nothing is queued for that state; of two chunks the second is queued in
  either case). The handler of \<open>message_complete\<close> has emptied the buffer when the chunk
  updaters run, so they write the empty string: the sealed assistant message has no
  content, where the concatenation of the deltas is \<open>Hello \<close>. With a render between
  the last chunk and \<open>message_complete\<close> the content is \<open>Hello \<close>.
\<close>

theorem batched_chunks_lost:
  "render (sendMessage_queued 5 ''c1'' ''Hi'' (connected, [])) = (mid_turn, []) \<and>
   messages (fst (render (deliver_queued sample_parse
       [''chunk Hel'', ''chunk lo '', ''message_complete''] (mid_turn, [])))) =
     [\<lparr>msg_id = ''5'', role = User, content = ''Hi'', isStreaming = None, timestamp = 5\<rparr>,
      \<lparr>msg_id = ''6'', role = Assistant, content = [], isStreaming = Some False,
        timestamp = 5\<rparr>] \<and>
   messages (fst (render (deliver_queued sample_parse [''message_complete'']
       (render (deliver_queued sample_parse [''chunk Hel'', ''chunk lo ''] (mid_turn, [])))))) =
     [\<lparr>msg_id = ''5'', role = User, content = ''Hi'', isStreaming = None, timestamp = 5\<rparr>,
      \<lparr>msg_id = ''6'', role = Assistant, content = ''Hello '', isStreaming = Some False,
        timestamp = 5\<rparr>]"
  by (simp add: render_sendMessage_queued mid_turn_def [symmetric])
    (simp add: mid_turn_eq render_def deliver_queued_def onmessage_queued_def
      sample_parse_simps dispatch_queued_def text_chunk_def frame_def content_or_empty_def
      chunk_update_def complete_update_def Let_def)

section \<open>At most one streaming message\<close>

text \<open>
  Claim C2, as stated, fails, in two ways. Two calls of \<open>sendMessage\<close> in a row on an
  open socket leave two streaming placeholders in the store. And a turn ended by an
  \<open>error\<close> frame leaves its placeholder streaming, so that the next send through the
  page adds a second one.
\<close>

theorem two_streaming_counterexample:
  "\<not> at_most_one_streaming (messages (run sample_parse
       [Connect (Some ''tok''), SocketOpen 0,
        SendMessage 1 ''c1'' ''a'', SendMessage 2 ''c1'' ''b''] initial)) \<and>
   \<not> at_most_one_streaming (messages (run sample_parse
       [Connect (Some ''tok''), SocketOpen 0,
        HandleSendMessage 1 ''a'' (Some ''c1''), SocketMessage 0 ''error'',
        HandleSendMessage 2 ''b'' (Some ''c1'')] initial))"
  by (simp add: run_def initial_def connect_def socket_open_def onopen_def
      set_readyState_def sendMessage_def handleSendMessage_def trim_def is_space_def
      socket_message_def onmessage_parsed sample_parse_simps dispatch_def frame_def
      at_most_one_streaming_def is_open_def)

lemma store_inv_at_most_one: "store_inv s \<Longrightarrow> at_most_one_streaming (messages s)"
proof (cases "messages s = []")
  case True
  then show ?thesis by (simp add: at_most_one_streaming_def)
next
  case False
  assume inv: "store_inv s"
  from False have ms: "messages s = butlast (messages s) @ [last (messages s)]"
    by simp
  have "filter is_open (messages s) = filter is_open [last (messages s)]"
    by (subst ms) (use inv in \<open>simp add: store_inv_def\<close>)
  then show ?thesis
    using False by (simp add: at_most_one_streaming_def)
qed

lemma store_inv_initial: "store_inv initial"
  by (simp add: store_inv_def initial_def)

lemma store_inv_cong:
  "store_inv s \<Longrightarrow> messages s' = messages s \<Longrightarrow> isStreamingState s' = isStreamingState s \<Longrightarrow>
   store_inv s'"
  by (simp add: store_inv_def)

lemma store_inv_none_open:
  "store_inv s \<Longrightarrow> \<not> isStreamingState s \<Longrightarrow> filter is_open (messages s) = []"
proof (cases "messages s = []")
  case True
  then show ?thesis by simp
next
  case False
  assume inv: "store_inv s" and off: "\<not> isStreamingState s"
  from False have ms: "messages s = butlast (messages s) @ [last (messages s)]"
    by simp
  from inv off False have "\<not> is_open (last (messages s))"
    by (auto simp add: store_inv_def)
  then show ?thesis
    by (subst ms) (use inv in \<open>simp add: store_inv_def\<close>)
qed

lemma store_inv_sendMessage:
  assumes "store_inv s" and "\<not> isStreamingState s"
  shows "store_inv (sendMessage now chatId message s)"
proof (cases "sendMessage now chatId message s = s")
  case True
  with assms show ?thesis by simp
next
  case False
  then have m: "messages (sendMessage now chatId message s) =
      messages s @ [\<lparr>msg_id = toString now, role = User, content = message,
                       isStreaming = None, timestamp = now\<rparr>,
                    \<lparr>msg_id = toString (now + 1), role = Assistant, content = [],
                       isStreaming = Some True, timestamp = now\<rparr>]"
    and f: "isStreamingState (sendMessage now chatId message s)"
    by (auto simp add: sendMessage_def Let_def split: option.splits if_splits)
  show ?thesis
    using store_inv_none_open [OF assms] f
    by (simp add: store_inv_def m butlast_append is_open_def)
qed

lemma store_inv_handleSendMessage:
  "store_inv s \<Longrightarrow> store_inv (snd (handleSendMessage now inputValue selectedChat s))"
  by (auto simp add: handleSendMessage_def store_inv_sendMessage split: option.splits)

lemma store_inv_chunk_update:
  "filter is_open (butlast (chunk_update b ms)) = filter is_open (butlast ms) \<and>
   (chunk_update b ms = [] \<longleftrightarrow> ms = []) \<and>
   (ms \<noteq> [] \<longrightarrow> is_open (last (chunk_update b ms)) = is_open (last ms) \<and>
                role (last (chunk_update b ms)) = role (last ms))"
  by (auto simp add: chunk_update_def Let_def is_open_def)

lemma store_inv_complete_update:
  "filter is_open (butlast ms) = [] \<Longrightarrow>
   ms = [] \<or> \<not> is_open (last ms) \<or> role (last ms) = Assistant \<Longrightarrow>
   filter is_open (butlast (complete_update ms)) = [] \<and>
   (complete_update ms = [] \<or> \<not> is_open (last (complete_update ms)))"
  by (auto simp add: complete_update_def Let_def is_open_def)

lemma store_inv_dispatch:
  assumes "store_inv s" and "wm_type data \<noteq> ''rate_limit_exceeded''"
    and "wm_type data \<noteq> ''error''"
  shows "store_inv (dispatch data s)"
proof -
  consider (chunk) "wm_type data = ''text_chunk''"
    | (complete) "wm_type data = ''message_complete''"
    | (info) "wm_type data = ''rate_limit_info''"
    | (other) "wm_type data \<noteq> ''text_chunk''" "wm_type data \<noteq> ''message_complete''"
        "wm_type data \<noteq> ''rate_limit_info''"
    by blast
  then show ?thesis
  proof cases
    case chunk
    then have "messages (dispatch data s) =
        chunk_update (currentMessageRef s @ content_or_empty data) (messages s)"
      and "isStreamingState (dispatch data s) = isStreamingState s"
      by (simp_all add: dispatch_def Let_def)
    then show ?thesis
      using assms(1) store_inv_chunk_update [of "currentMessageRef s @ content_or_empty data" "messages s"]
      by (auto simp add: store_inv_def)
  next
    case complete
    then have "messages (dispatch data s) = complete_update (messages s)"
      by (simp add: dispatch_def)
    moreover have "filter is_open (butlast (complete_update (messages s))) = [] \<and>
      (complete_update (messages s) = [] \<or> \<not> is_open (last (complete_update (messages s))))"
      by (rule store_inv_complete_update) (use assms(1) in \<open>auto simp add: store_inv_def\<close>)
    ultimately show ?thesis
      by (auto simp add: store_inv_def)
  next
    case info
    then have "messages (dispatch data s) = messages s"
      and "isStreamingState (dispatch data s) = isStreamingState s"
      by (simp_all add: dispatch_def split: option.splits)
    with assms(1) show ?thesis by (rule store_inv_cong)
  next
    case other
    with assms(2,3) have "dispatch data s = s"
      by (simp add: dispatch_def)
    with assms(1) show ?thesis by simp
  qed
qed

lemma store_inv_step:
  assumes "store_inv s" and "guarded P e"
  shows "store_inv (step P e s)"
proof (cases e)
  case (Connect token)
  then show ?thesis
    using assms(1) by (auto simp add: connect_def store_inv_def split: option.splits)
next
  case Disconnect
  then show ?thesis
    using assms(1) by (auto simp add: disconnect_def store_inv_def split: option.splits)
next
  case (SendMessage now chatId message)
  with assms(2) show ?thesis by simp
next
  case (HandleSendMessage now inputValue selectedChat)
  then show ?thesis
    using assms(1) by (simp add: store_inv_handleSendMessage)
next
  case (SocketOpen i)
  then show ?thesis
    using assms(1) by (simp add: socket_open_def onopen_def set_readyState_def store_inv_def)
next
  case (SocketClose i)
  then show ?thesis
    using assms(1) by (simp add: socket_close_def onclose_def set_readyState_def store_inv_def)
next
  case (SocketError i)
  then show ?thesis
    using assms(1) by (simp add: onerror_def)
next
  case (SocketMessage i raw)
  show ?thesis
  proof (cases "P raw")
    case (Inl err)
    then show ?thesis
      using assms(1) SocketMessage by (simp add: socket_message_def onmessage_def onmessage_try_def)
  next
    case (Inr data)
    with assms(2) SocketMessage have "wm_type data \<noteq> ''rate_limit_exceeded''"
      "wm_type data \<noteq> ''error''"
      by simp_all
    with assms(1) have "store_inv (dispatch data s)"
      by (rule store_inv_dispatch)
    then show ?thesis
      using assms(1) SocketMessage Inr by (simp add: socket_message_def onmessage_parsed)
  qed
next
  case PingTick
  then show ?thesis
    using assms(1) by (auto simp add: ping_def store_inv_def split: option.splits)
qed

lemma store_inv_run:
  "store_inv s \<Longrightarrow> list_all (guarded P) es \<Longrightarrow> store_inv (run P es s)"
proof (induction es arbitrary: s)
  case Nil
  then show ?case by (simp add: run_def)
next
  case (Cons e es)
  from Cons.prems have "store_inv (step P e s)" and "list_all (guarded P) es"
    by (simp_all add: store_inv_step)
  then have "store_inv (run P es (step P e s))"
    by (rule Cons.IH)
  then show ?case by (simp add: run_def)
qed

text \<open>
  Claim C2, amended. After any sequence of events in which messages are sent through
  the page's \<open>handleSendMessage\<close> (which sends only while the streaming flag is false)
  and no frame is of type \<open>rate_limit_exceeded\<close> or \<open>error\<close> (the events are
  \<open>connect\<close>, \<open>disconnect\<close>, \<open>handleSendMessage\<close>, the opening, closing and error of
  a socket, the keep-alive tick and every other inbound frame, malformed ones included),
  the store holds at most one message with \<open>isStreaming = true\<close>, and such a message is
  the last one.
\<close>

theorem guarded_run_one_streaming:
  "list_all (guarded P) es \<Longrightarrow> at_most_one_streaming (messages (run P es initial))"
  by (rule store_inv_at_most_one) (rule store_inv_run [OF store_inv_initial])

theorem guarded_run_one_streaming_witness:
  "at_most_one_streaming (messages (run sample_parse
       [Connect (Some ''tok''), SocketOpen 0,
        HandleSendMessage 1 ''a'' (Some ''c1''), SocketMessage 0 ''chunk Hel'',
        HandleSendMessage 2 ''b'' (Some ''c1''), Disconnect] initial)) \<and>
   length (messages (run sample_parse
       [Connect (Some ''tok''), SocketOpen 0,
        HandleSendMessage 1 ''a'' (Some ''c1''), SocketMessage 0 ''chunk Hel'',
        HandleSendMessage 2 ''b'' (Some ''c1''), Disconnect] initial)) = 2"
  using guarded_run_one_streaming [of sample_parse
       "[Connect (Some ''tok''), SocketOpen 0,
        HandleSendMessage 1 ''a'' (Some ''c1''), SocketMessage 0 ''chunk Hel'',
        HandleSendMessage 2 ''b'' (Some ''c1''), Disconnect]"]
  by (simp add: run_def initial_def connect_def socket_open_def onopen_def
      set_readyState_def sendMessage_def handleSendMessage_def trim_def is_space_def
      socket_message_def onmessage_parsed sample_parse_simps dispatch_def frame_def
      text_chunk_def content_or_empty_def chunk_update_def disconnect_def Let_def)

end
